theory Spec2Isabelle
  imports Complex_Main "HOL-Library.Product_Lexorder"
begin

section \<open>Numbers and errors\<close>

text \<open>
  Python floats are idealised as reals. The one non-finite value the ADAS modules
  produce on purpose, \<^verbatim>\<open>float('inf')\<close>, is a constructor of its own, ordered
  above every finite value as Python orders it. NaN and rounding are outside the model.
\<close>

datatype pyfloat = Fin real | PInf

instantiation pyfloat :: linorder
begin

fun less_eq_pyfloat :: "pyfloat \<Rightarrow> pyfloat \<Rightarrow> bool" where
  "less_eq_pyfloat (Fin a) (Fin b) = (a \<le> b)"
| "less_eq_pyfloat (Fin a) PInf = True"
| "less_eq_pyfloat PInf (Fin b) = False"
| "less_eq_pyfloat PInf PInf = True"

definition less_pyfloat :: "pyfloat \<Rightarrow> pyfloat \<Rightarrow> bool" where
  "less_pyfloat x y = (x \<le> y \<and> \<not> y \<le> x)"

instance
proof
  fix x y z :: pyfloat
  show "(x < y) = (x \<le> y \<and> \<not> y \<le> x)"
    by (simp add: less_pyfloat_def)
  show "x \<le> x"
    by (cases x) simp_all
  show "x \<le> y \<Longrightarrow> y \<le> z \<Longrightarrow> x \<le> z"
    by (cases x; cases y; cases z) simp_all
  show "x \<le> y \<Longrightarrow> y \<le> x \<Longrightarrow> x = y"
    by (cases x; cases y) simp_all
  show "x \<le> y \<or> y \<le> x"
    by (cases x; cases y) auto
qed

end

text \<open>The exceptions that the modelled functions can raise.\<close>

datatype py_error =
  ZeroDivisionError | TypeError | ValueError | IndexError | LinAlgError | RankWarning

definition raised :: "py_error + 'a \<Rightarrow> bool" where
  "raised r = (case r of Inl e \<Rightarrow> True | Inr v \<Rightarrow> False)"

text \<open>\<^verbatim>\<open>np.clip(x, lo, hi)\<close> on one element: \<^verbatim>\<open>minimum(maximum(x, lo), hi)\<close>.\<close>

definition np_clip :: "real \<Rightarrow> real \<Rightarrow> real \<Rightarrow> real" where
  "np_clip x lo hi = min (max x lo) hi"

section \<open>Distance estimator (backend/adas/distance\_estimator.py)\<close>

record CameraCalibration =
  fx :: real
  fy :: real
  cx :: real
  cy :: real
  height :: real
  pitch :: real
  depth_scale :: real

definition default_calibration :: CameraCalibration where
  "default_calibration =
     \<lparr>fx = 500, fy = 500, cx = 320, cy = 240, height = 3/2, pitch = 0, depth_scale = 10\<rparr>"

record DistanceEstimator =
  calibration :: CameraCalibration
  zone_danger :: real
  zone_warning :: real
  zone_safe :: real

text \<open>\<^verbatim>\<open>DistanceEstimator.__init__\<close>: \<^verbatim>\<open>calibration or CameraCalibration()\<close>.\<close>

definition new_estimator :: "CameraCalibration option \<Rightarrow> DistanceEstimator" where
  "new_estimator c =
     \<lparr>calibration = (case c of None \<Rightarrow> default_calibration | Some k \<Rightarrow> k),
      zone_danger = 5, zone_warning = 15, zone_safe = 30\<rparr>"

text \<open>\<^verbatim>\<open>DistanceEstimator._depth_to_distance\<close>.\<close>

definition depth_to_distance :: "DistanceEstimator \<Rightarrow> real \<Rightarrow> real" where
  "depth_to_distance est depth =
     (if depth < 1/100 then 100
      else let dm = depth_scale (calibration est) / depth in min dm 100)"

text \<open>
  \<^verbatim>\<open>DistanceEstimator.calibrate_from_known_distance\<close>. The method has one guarded
  assignment (followed by a \<^verbatim>\<open>print\<close> of the new scale, which is not modelled) and
  no \<^verbatim>\<open>else\<close> branch and no \<^verbatim>\<open>raise\<close>: every path returns normally, so every
  result is an \<open>Inr\<close>.
\<close>

definition calibrate_from_known_distance ::
  "DistanceEstimator \<Rightarrow> real \<Rightarrow> real \<Rightarrow> py_error + DistanceEstimator" where
  "calibrate_from_known_distance est depth_value actual_distance =
     (if depth_value > 1/100
      then Inr (est\<lparr>calibration := (calibration est)\<lparr>depth_scale := actual_distance * depth_value\<rparr>\<rparr>)
      else Inr est)"

section \<open>Collision warning (backend/adas/collision\_warning.py)\<close>

text \<open>
  \<^verbatim>\<open>class WarningLevel(Enum)\<close> with its \<^verbatim>\<open>.value\<close>. The class derives from
  \<^verbatim>\<open>enum.Enum\<close>, not \<^verbatim>\<open>IntEnum\<close>: its members are compared by identity only and
  define no ordering.
\<close>

datatype WarningLevel = NONE | INFO | WARNING | DANGER | CRITICAL

fun level_value :: "WarningLevel \<Rightarrow> nat" where
  "level_value NONE = 0"
| "level_value INFO = 1"
| "level_value WARNING = 2"
| "level_value DANGER = 3"
| "level_value CRITICAL = 4"

datatype WarningType =
  FORWARD_COLLISION | PEDESTRIAN | CYCLIST | SIDE_COLLISION | REAR_COLLISION | LANE_DEPARTURE

record CollisionThreat =
  object_id :: int
  object_class :: string
  distance :: real
  relative_velocity :: real
  ttc :: pyfloat
  lateral_offset :: real
  warning_level :: WarningLevel
  warning_type :: WarningType
  confidence :: real

text \<open>
  The text of \<^verbatim>\<open>warning_message\<close> is an f-string; the model keeps what is formatted
  into it (the level that selects the prefix, the target, the distance and the TTC) and
  leaves the rendering out.
\<close>

datatype message_target = Pedestrian | Cyclist | Titled string

datatype warning_text = NoMessage | Message WarningLevel message_target real pyfloat

record WarningState =
  timestamp :: real
  active_threats :: "CollisionThreat list"
  highest_level :: WarningLevel
  primary_threat :: "CollisionThreat option"
  warning_message :: warning_text
  audio_alert :: bool
  brake_assist_triggered :: bool

text \<open>
  A detected object is a dictionary read with \<^verbatim>\<open>obj.get(key, default)\<close>: every key
  may be missing. A bounding box that is present may be falsy (\<^verbatim>\<open>None\<close> or an empty
  tuple), which \<^verbatim>\<open>if bbox:\<close> tells apart from a 4-tuple.
\<close>

datatype bbox_entry = BBox real real real real | BBoxFalsy

record Detection =
  obj_object_id :: "int option"
  obj_object_class :: "string option"
  obj_distance :: "pyfloat option"
  obj_bbox :: "bbox_entry option"
  obj_confidence :: "real option"

type_synonym track = "(real \<times> real \<times> real) list"

record CollisionWarning =
  ego_velocity :: real
  min_confidence :: real
  enable_audio :: bool
  object_history :: "int \<rightharpoonup> track"
  history_window :: real
  last_warning_time :: "string \<rightharpoonup> real"
  warning_cooldown :: real
  class_priority :: "string \<rightharpoonup> real"

definition TTC_CRITICAL :: real where "TTC_CRITICAL = 1"
definition TTC_DANGER :: real where "TTC_DANGER = 2"
definition TTC_WARNING :: real where "TTC_WARNING = 7/2"
definition TTC_INFO :: real where "TTC_INFO = 5"
definition DIST_CRITICAL :: real where "DIST_CRITICAL = 3"
definition DIST_DANGER :: real where "DIST_DANGER = 8"
definition DIST_WARNING :: real where "DIST_WARNING = 15"
definition DIST_SAFE :: real where "DIST_SAFE = 30"
definition LATERAL_THRESHOLD :: real where "LATERAL_THRESHOLD = 2"

text \<open>\<^verbatim>\<open>CollisionWarning.__init__\<close>.\<close>

definition new_collision_warning :: "real \<Rightarrow> real \<Rightarrow> bool \<Rightarrow> CollisionWarning" where
  "new_collision_warning ego minc audio =
     \<lparr>ego_velocity = ego, min_confidence = minc, enable_audio = audio,
      object_history = Map.empty, history_window = 1,
      last_warning_time = Map.empty, warning_cooldown = 1/2,
      class_priority = map_of
        [(''person'', 1), (''bicycle'', 9/10), (''motorcycle'', 8/10),
         (''car'', 7/10), (''truck'', 7/10), (''bus'', 7/10)]\<rparr>"

text \<open>\<^verbatim>\<open>CollisionWarning.update_ego_velocity\<close>.\<close>

definition update_ego_velocity :: "CollisionWarning \<Rightarrow> real \<Rightarrow> CollisionWarning" where
  "update_ego_velocity s velocity = s\<lparr>ego_velocity := max 0 velocity\<rparr>"

text \<open>\<^verbatim>\<open>CollisionWarning._update_history\<close>.\<close>

definition update_history ::
  "CollisionWarning \<Rightarrow> int \<Rightarrow> real \<Rightarrow> real \<Rightarrow> real \<Rightarrow> CollisionWarning" where
  "update_history s oid ts dst lateral =
     (let history = (case object_history s oid of None \<Rightarrow> [] | Some h \<Rightarrow> h) @ [(ts, dst, lateral)];
          cutoff = ts - history_window s
      in s\<lparr>object_history :=
             (object_history s)(oid \<mapsto> filter (\<lambda>(t, d, l). t > cutoff) history)\<rparr>)"

text \<open>\<^verbatim>\<open>CollisionWarning._estimate_velocity\<close>.\<close>

definition estimate_velocity :: "CollisionWarning \<Rightarrow> int \<Rightarrow> real" where
  "estimate_velocity s oid =
     (let history = (case object_history s oid of None \<Rightarrow> [] | Some h \<Rightarrow> h)
      in if length history < 2 then 0
         else (case (hd history, last history) of
                 ((t1, d1, l1), (t2, d2, l2)) \<Rightarrow>
                   let dt = t2 - t1
                   in if dt < 1/100 then 0 else (d2 - d1) / dt))"

text \<open>\<^verbatim>\<open>CollisionWarning._calculate_ttc\<close>.\<close>

definition calculate_ttc :: "CollisionWarning \<Rightarrow> real \<Rightarrow> real \<Rightarrow> pyfloat" where
  "calculate_ttc s dst rel_velocity =
     (let closing_velocity = ego_velocity s - rel_velocity
      in if closing_velocity \<le> 0 then PInf
         else let t = dst / closing_velocity in Fin (max 0 t))"

text \<open>
  \<^verbatim>\<open>CollisionWarning._determine_warning_level\<close>. The source looks the class up in
  \<^verbatim>\<open>class_priority\<close> and never uses the result.
\<close>

definition determine_warning_level ::
  "CollisionWarning \<Rightarrow> real \<Rightarrow> pyfloat \<Rightarrow> real \<Rightarrow> string \<Rightarrow> WarningLevel" where
  "determine_warning_level s dst t lateral cls =
     (if \<bar>lateral\<bar> > LATERAL_THRESHOLD
      then (if dst < DIST_WARNING then INFO else NONE)
      else if t < Fin TTC_CRITICAL then CRITICAL
      else if t < Fin TTC_DANGER then DANGER
      else if t < Fin TTC_WARNING then WARNING
      else if t < Fin TTC_INFO then INFO
      else if dst < DIST_CRITICAL then DANGER
      else if dst < DIST_DANGER then WARNING
      else if dst < DIST_WARNING then INFO
      else NONE)"

text \<open>\<^verbatim>\<open>CollisionWarning._determine_warning_type\<close>.\<close>

definition determine_warning_type :: "string \<Rightarrow> real \<Rightarrow> WarningType" where
  "determine_warning_type cls lateral =
     (if cls = ''person'' then PEDESTRIAN
      else if cls \<in> set [''bicycle'', ''motorcycle''] then CYCLIST
      else if \<bar>lateral\<bar> > 3/2 then SIDE_COLLISION
      else FORWARD_COLLISION)"

text \<open>\<^verbatim>\<open>CollisionWarning._generate_warning_message\<close>, up to rendering.\<close>

definition generate_warning_message :: "CollisionThreat \<Rightarrow> warning_text" where
  "generate_warning_message threat =
     (let target =
            (if warning_type threat = PEDESTRIAN then Pedestrian
             else if warning_type threat = CYCLIST then Cyclist
             else Titled (object_class threat))
      in Message (warning_level threat) target (distance threat) (ttc threat))"

text \<open>
  The lateral offset of \<^verbatim>\<open>_evaluate_threat\<close>. Both operands of the division are
  Python numbers, so a frame width of 0 raises \<^verbatim>\<open>ZeroDivisionError\<close>.
\<close>

definition lateral_of :: "bbox_entry \<Rightarrow> int \<Rightarrow> py_error + real" where
  "lateral_of bbox frame_width =
     (case bbox of
        BBoxFalsy \<Rightarrow> Inr 0
      | BBox x1 y1 x2 y2 \<Rightarrow>
          let center_x = (x1 + x2) / 2
          in if real_of_int frame_width / 2 = 0 then Inl ZeroDivisionError
             else Inr ((center_x - real_of_int frame_width / 2) / (real_of_int frame_width / 2) * 3))"

text \<open>
  \<^verbatim>\<open>CollisionWarning._evaluate_threat\<close>. The object mutates its history in place, so
  the state comes back beside the result, also when the call raises. The parameter
  \<open>hash_str\<close> stands for \<^verbatim>\<open>hash(str(obj))\<close>, the identifier of a detection without
  one. An infinite distance exceeds \<^verbatim>\<open>DIST_SAFE\<close> and leaves through the first guard.
\<close>

definition evaluate_threat ::
  "(Detection \<Rightarrow> int) \<Rightarrow> CollisionWarning \<Rightarrow> Detection \<Rightarrow> int \<Rightarrow> real
     \<Rightarrow> CollisionWarning \<times> (py_error + CollisionThreat option)" where
  "evaluate_threat hash_str s obj frame_width ts =
     (let oid = (case obj_object_id obj of None \<Rightarrow> hash_str obj | Some i \<Rightarrow> i);
          cls = (case obj_object_class obj of None \<Rightarrow> ''unknown'' | Some c \<Rightarrow> c);
          dist0 = (case obj_distance obj of None \<Rightarrow> PInf | Some d \<Rightarrow> d);
          conf = (case obj_confidence obj of None \<Rightarrow> 1 | Some c \<Rightarrow> c);
          bbox = (case obj_bbox obj of None \<Rightarrow> BBox 0 0 0 0 | Some b \<Rightarrow> b)
      in case dist0 of
           PInf \<Rightarrow> (s, Inr None)
         | Fin dst \<Rightarrow>
             if dst \<le> 0 \<or> dst > DIST_SAFE then (s, Inr None)
             else (case lateral_of bbox frame_width of
                     Inl e \<Rightarrow> (s, Inl e)
                   | Inr lateral \<Rightarrow>
                       let s1 = update_history s oid ts dst lateral;
                           rel = estimate_velocity s1 oid;
                           t = calculate_ttc s1 dst rel;
                           lvl = determine_warning_level s1 dst t lateral cls;
                           wtype = determine_warning_type cls lateral
                       in (s1, Inr (Some
                            \<lparr>object_id = oid, object_class = cls, distance = dst,
                             relative_velocity = rel, ttc = t, lateral_offset = lateral,
                             warning_level = lvl, warning_type = wtype,
                             confidence = conf\<rparr>))))"

text \<open>The loop of \<^verbatim>\<open>analyze\<close> over the detected objects; it stops at the first exception.\<close>

fun analyze_loop ::
  "(Detection \<Rightarrow> int) \<Rightarrow> CollisionWarning \<Rightarrow> Detection list \<Rightarrow> int \<Rightarrow> real
     \<Rightarrow> CollisionThreat list \<Rightarrow> CollisionWarning \<times> (py_error + CollisionThreat list)" where
  "analyze_loop hash_str s [] frame_width ts threats = (s, Inr threats)"
| "analyze_loop hash_str s (obj # objs) frame_width ts threats =
     (if (case obj_confidence obj of None \<Rightarrow> 1 | Some c \<Rightarrow> c) < min_confidence s
      then analyze_loop hash_str s objs frame_width ts threats
      else (case evaluate_threat hash_str s obj frame_width ts of
              (s1, Inl e) \<Rightarrow> (s1, Inl e)
            | (s1, Inr None) \<Rightarrow> analyze_loop hash_str s1 objs frame_width ts threats
            | (s1, Inr (Some threat)) \<Rightarrow>
                if warning_level threat \<noteq> NONE
                then analyze_loop hash_str s1 objs frame_width ts (threats @ [threat])
                else analyze_loop hash_str s1 objs frame_width ts threats))"

text \<open>
  The builtin \<^verbatim>\<open>max\<close> over the warning levels of the threats. On an empty iterable
  it raises \<^verbatim>\<open>ValueError\<close>; one item is returned without a comparison; from the second
  item on it evaluates \<^verbatim>\<open>item > maxitem\<close>, which plain \<^verbatim>\<open>Enum\<close> members do not
  support: \<^verbatim>\<open>TypeError\<close>, whatever the two members are.
\<close>

fun max_of_levels :: "WarningLevel list \<Rightarrow> py_error + WarningLevel" where
  "max_of_levels [] = Inl ValueError"
| "max_of_levels [l] = Inr l"
| "max_of_levels (l # m # ls) = Inl TypeError"

text \<open>
  \<^verbatim>\<open>CollisionWarning.analyze\<close>. \<open>now\<close> is the value of \<^verbatim>\<open>time.time()\<close>, taken when
  the timestamp is missing or falsy (0). \<^verbatim>\<open>list.sort\<close> with a key is a stable sort,
  as \<open>sort_key\<close> is; the key is the tuple \<^verbatim>\<open>(t.ttc, t.distance)\<close>, compared
  lexicographically.
\<close>

definition threat_key :: "CollisionThreat \<Rightarrow> pyfloat \<times> real" where
  "threat_key t = (ttc t, distance t)"

definition analyze ::
  "(Detection \<Rightarrow> int) \<Rightarrow> real \<Rightarrow> CollisionWarning \<Rightarrow> Detection list \<Rightarrow> int \<Rightarrow> real option
     \<Rightarrow> CollisionWarning \<times> (py_error + WarningState)" where
  "analyze hash_str now s detected_objects frame_width timestamp0 =
     (let ts = (case timestamp0 of None \<Rightarrow> now | Some t \<Rightarrow> if t = 0 then now else t)
      in case analyze_loop hash_str s detected_objects frame_width ts [] of
           (s1, Inl e) \<Rightarrow> (s1, Inl e)
         | (s1, Inr collected) \<Rightarrow>
             let threats = sort_key threat_key collected;
                 state = \<lparr>timestamp = ts, active_threats = threats, highest_level = NONE,
                          primary_threat = None, warning_message = NoMessage,
                          audio_alert = False, brake_assist_triggered = False\<rparr>
             in case threats of
                  [] \<Rightarrow> (s1, Inr state)
                | first # rest \<Rightarrow>
                    (case max_of_levels (map warning_level threats) of
                       Inl e \<Rightarrow> (s1, Inl e)
                     | Inr hl \<Rightarrow>
                         (s1, Inr (state
                            \<lparr>primary_threat := Some first,
                             highest_level := hl,
                             warning_message := generate_warning_message first,
                             audio_alert := (enable_audio s1 \<and> level_value hl \<ge> level_value WARNING),
                             brake_assist_triggered := (hl = CRITICAL)\<rparr>))))"

section \<open>Lane keeping (backend/adas/lane\_keeping.py)\<close>

datatype LaneDepartureStatus =
  CENTERED | DRIFTING_LEFT | DRIFTING_RIGHT | DEPARTED_LEFT | DEPARTED_RIGHT | NO_LANE

text \<open>
  A lane polynomial is the coefficient array of \<^verbatim>\<open>np.polyfit(y, x, 2)\<close>: always three
  coefficients \<open>(a, b, c)\<close> of \<open>x = a\<cdot>y\<^sup>2 + b\<cdot>y + c\<close>, highest degree first.
\<close>

type_synonym poly2 = "real \<times> real \<times> real"

record LaneState =
  left_poly :: "poly2 option"
  right_poly :: "poly2 option"
  center_poly :: "poly2 option"
  road_width :: real
  center_offset :: real
  curvature_radius :: pyfloat
  heading_angle :: real
  departure_status :: LaneDepartureStatus
  lane_confidence :: real
  suggested_steering :: real

text \<open>The defaults of the dataclass \<^verbatim>\<open>LaneState\<close> (its field \<^verbatim>\<open>confidence\<close> is \<open>lane_confidence\<close>).\<close>

definition default_lane_state :: LaneState where
  "default_lane_state =
     \<lparr>left_poly = None, right_poly = None, center_poly = None, road_width = 7/2,
      center_offset = 0, curvature_radius = PInf, heading_angle = 0,
      departure_status = NO_LANE, lane_confidence = 0, suggested_steering = 0\<rparr>"

text \<open>
  The engine. \<open>perspective\<close> is the frame size for which the cached matrices
  \<^verbatim>\<open>M\<close>, \<^verbatim>\<open>Minv\<close> were computed (\<open>None\<close> before the first frame).
\<close>

record LaneKeeping =
  roi_top_ratio :: real
  history_size :: int
  enable_smoothing :: bool
  left_history :: "poly2 list"
  right_history :: "poly2 list"
  ppm_bottom :: real
  ppm_top :: real
  perspective :: "(int \<times> int) option"
  warped_size :: "int \<times> int"

definition DRIFT_THRESHOLD :: real where "DRIFT_THRESHOLD = 3/10"
definition DEPARTURE_THRESHOLD :: real where "DEPARTURE_THRESHOLD = 7/10"
definition MIN_LANE_WIDTH :: real where "MIN_LANE_WIDTH = 5/2"
definition MAX_LANE_WIDTH :: real where "MAX_LANE_WIDTH = 9/2"
definition DEFAULT_LANE_WIDTH :: real where "DEFAULT_LANE_WIDTH = 7/2"

text \<open>\<^verbatim>\<open>LaneKeeping.__init__\<close>.\<close>

definition new_lane_keeping :: "real \<Rightarrow> int \<Rightarrow> bool \<Rightarrow> LaneKeeping" where
  "new_lane_keeping roi hs smoothing =
     \<lparr>roi_top_ratio = roi, history_size = hs, enable_smoothing = smoothing,
      left_history = [], right_history = [], ppm_bottom = 100, ppm_top = 30,
      perspective = None, warped_size = (400, 600)\<rparr>"

text \<open>
  The matched pixels of one side, as \<^verbatim>\<open>_sliding_window_search\<close> returns them: the
  array of x coordinates and the array of y coordinates.
\<close>

type_synonym pixels = "int list \<times> int list"

text \<open>
  \<^verbatim>\<open>LaneKeeping._fit_polynomial\<close> with its default degree 2. The parameter
  \<open>polyfit\<close> stands for \<^verbatim>\<open>np.polyfit(y, x, 2)\<close>, which returns the coefficients or
  raises. The \<^verbatim>\<open>except\<close> clause catches \<^verbatim>\<open>RankWarning\<close> and \<^verbatim>\<open>LinAlgError\<close>;
  any other exception propagates.
\<close>

definition fit_polynomial ::
  "(int list \<Rightarrow> int list \<Rightarrow> py_error + poly2) \<Rightarrow> pixels \<Rightarrow> py_error + poly2 option" where
  "fit_polynomial polyfit px =
     (case px of (x, y) \<Rightarrow>
        if length x < 10 then Inr None
        else (case polyfit y x of
                Inr coeffs \<Rightarrow> Inr (Some coeffs)
              | Inl RankWarning \<Rightarrow> Inr None
              | Inl LinAlgError \<Rightarrow> Inr None
              | Inl e \<Rightarrow> Inl e))"

text \<open>
  The per-frame fit of one side in \<^verbatim>\<open>detect\<close>:
  \<^verbatim>\<open>self._fit_polynomial(pixels) if len(pixels[0]) > 100 else None\<close>.
\<close>

definition raw_fit ::
  "(int list \<Rightarrow> int list \<Rightarrow> py_error + poly2) \<Rightarrow> pixels \<Rightarrow> py_error + poly2 option" where
  "raw_fit polyfit px =
     (if length (fst px) > 100 then fit_polynomial polyfit px else Inr None)"

text \<open>\<^verbatim>\<open>np.mean(history, axis=0)\<close> over a non-empty list of coefficient arrays.\<close>

definition mean_poly :: "poly2 list \<Rightarrow> poly2" where
  "mean_poly history =
     (let n = real (length history)
      in (sum_list (map fst history) / n,
          sum_list (map (fst \<circ> snd) history) / n,
          sum_list (map (snd \<circ> snd) history) / n))"

text \<open>
  \<^verbatim>\<open>LaneKeeping._smooth_lane\<close>: the smoothed polynomial and the updated history.
  \<^verbatim>\<open>history.pop(0)\<close> on an empty list (possible only with a negative
  \<^verbatim>\<open>history_size\<close>) raises \<^verbatim>\<open>IndexError\<close>.
\<close>

definition smooth_lane ::
  "LaneKeeping \<Rightarrow> poly2 option \<Rightarrow> poly2 list \<Rightarrow> py_error + (poly2 option \<times> poly2 list)" where
  "smooth_lane lk poly history =
     (let h1 = (case poly of None \<Rightarrow> history | Some p \<Rightarrow> history @ [p])
      in if int (length h1) > history_size lk
         then (case h1 of
                 [] \<Rightarrow> Inl IndexError
               | p # h2 \<Rightarrow> Inr (if h2 = [] then None else Some (mean_poly h2), h2))
         else Inr (if h1 = [] then None else Some (mean_poly h1), h1))"

text \<open>\<^verbatim>\<open>np.polyval\<close> on three coefficients (Horner's scheme).\<close>

definition polyval :: "poly2 \<Rightarrow> real \<Rightarrow> real" where
  "polyval p y = (case p of (a, b, c) \<Rightarrow> (a * y + b) * y + c)"

text \<open>\<^verbatim>\<open>LaneKeeping._compute_curvature\<close>.\<close>

definition compute_curvature :: "LaneKeeping \<Rightarrow> poly2 \<Rightarrow> real \<Rightarrow> pyfloat" where
  "compute_curvature lk poly y_eval =
     (case poly of (a, b, c) \<Rightarrow>
        let d1 = 2 * a * y_eval + b;
            d2 = 2 * a
        in if \<bar>d2\<bar> < 1/1000000 then PInf
           else let curvature = ((1 + d1\<^sup>2) powr (3/2)) / \<bar>d2\<bar>;
                    curvature_m = curvature / ppm_bottom lk
                in Fin (min curvature_m 10000))"

text \<open>\<^verbatim>\<open>LaneKeeping._compute_heading\<close>.\<close>

definition compute_heading :: "poly2 \<Rightarrow> real \<Rightarrow> real" where
  "compute_heading poly y_eval =
     (case poly of (a, b, c) \<Rightarrow>
        let slope = 2 * a * y_eval + b
        in arctan slope * 180 / pi)"

text \<open>\<^verbatim>\<open>LaneKeeping._compute_steering\<close>.\<close>

definition compute_steering :: "LaneState \<Rightarrow> real" where
  "compute_steering st =
     (let steering = 2 * center_offset st + (1/2) * heading_angle st
      in np_clip steering (- 45) 45)"

text \<open>The departure classification at the end of \<^verbatim>\<open>_compute_metrics\<close>.\<close>

definition departure_of :: "real \<Rightarrow> LaneDepartureStatus" where
  "departure_of off =
     (if \<bar>off\<bar> > DEPARTURE_THRESHOLD
      then (if off > 0 then DEPARTED_RIGHT else DEPARTED_LEFT)
      else if \<bar>off\<bar> > DRIFT_THRESHOLD
      then (if off > 0 then DRIFTING_RIGHT else DRIFTING_LEFT)
      else CENTERED)"

text \<open>
  \<^verbatim>\<open>LaneKeeping._compute_metrics\<close>. The image width and height are parameters the
  source never reads.
\<close>

definition compute_metrics ::
  "LaneKeeping \<Rightarrow> poly2 option \<Rightarrow> poly2 option \<Rightarrow> int \<Rightarrow> int \<Rightarrow> LaneState" where
  "compute_metrics lk lp rp img_width img_height =
     (let wh = real_of_int (snd (warped_size lk));
          ww = real_of_int (fst (warped_size lk));
          conf = (if lp \<noteq> None then 1/2 else 0) + (if rp \<noteq> None then 1/2 else 0);
          state = default_lane_state\<lparr>left_poly := lp, right_poly := rp, lane_confidence := conf\<rparr>
      in if conf = 0 then state\<lparr>departure_status := NO_LANE\<rparr>
         else
           let y_eval = wh - 1;
               state1 =
                 (case (lp, rp) of
                    (Some l, Some r) \<Rightarrow>
                      let left_x = polyval l y_eval;
                          right_x = polyval r y_eval;
                          lane_center = (left_x + right_x) / 2;
                          img_center = ww / 2;
                          lane_width_px = right_x - left_x;
                          st = (if lane_width_px > 50
                                then let meters_per_pixel = DEFAULT_LANE_WIDTH / lane_width_px
                                     in state\<lparr>road_width := lane_width_px * meters_per_pixel,
                                              center_offset := (img_center - lane_center) * meters_per_pixel\<rparr>
                                else state);
                          cp = (case (l, r) of ((a1, b1, c1), (a2, b2, c2)) \<Rightarrow>
                                  ((a1 + a2) / 2, (b1 + b2) / 2, (c1 + c2) / 2))
                      in st\<lparr>center_poly := Some cp,
                            curvature_radius := compute_curvature lk cp y_eval,
                            heading_angle := compute_heading cp y_eval\<rparr>
                  | (Some l, None) \<Rightarrow>
                      let left_x = polyval l y_eval;
                          estimated_center = left_x + ppm_bottom lk * DEFAULT_LANE_WIDTH / 2
                      in state\<lparr>center_offset := (ww / 2 - estimated_center) / ppm_bottom lk\<rparr>
                  | (None, Some r) \<Rightarrow>
                      let right_x = polyval r y_eval;
                          estimated_center = right_x - ppm_bottom lk * DEFAULT_LANE_WIDTH / 2
                      in state\<lparr>center_offset := (ww / 2 - estimated_center) / ppm_bottom lk\<rparr>
                  | (None, None) \<Rightarrow> state);
               state2 = state1\<lparr>departure_status := departure_of (center_offset state1)\<rparr>
           in state2\<lparr>suggested_steering := compute_steering state2\<rparr>)"

text \<open>
  \<^verbatim>\<open>LaneKeeping.detect\<close>, from the matched pixels on. The image operations before the
  fit (\<^verbatim>\<open>cv2.warpPerspective\<close>, the colour and gradient thresholds, the sliding-window
  search) are not modelled: the function takes the frame's width and height and the
  matched pixels of the left and of the right half. The engine is mutated in place, so
  it comes back beside the result, also when the call raises.
\<close>

definition detect ::
  "(int list \<Rightarrow> int list \<Rightarrow> py_error + poly2) \<Rightarrow> LaneKeeping \<Rightarrow> int \<Rightarrow> int \<Rightarrow> pixels \<Rightarrow> pixels
     \<Rightarrow> LaneKeeping \<times> (py_error + LaneState)" where
  "detect polyfit lk w h left_pixels right_pixels =
     (let lk1 = (if perspective lk = None then lk\<lparr>perspective := Some (w, h)\<rparr> else lk)
      in case raw_fit polyfit left_pixels of
           Inl e \<Rightarrow> (lk1, Inl e)
         | Inr lp \<Rightarrow>
             (case raw_fit polyfit right_pixels of
                Inl e \<Rightarrow> (lk1, Inl e)
              | Inr rp \<Rightarrow>
                  if enable_smoothing lk1
                  then (case smooth_lane lk1 lp (left_history lk1) of
                          Inl e \<Rightarrow> (lk1, Inl e)
                        | Inr (lp', lh) \<Rightarrow>
                            let lk2 = lk1\<lparr>left_history := lh\<rparr>
                            in (case smooth_lane lk2 rp (right_history lk2) of
                                  Inl e \<Rightarrow> (lk2, Inl e)
                                | Inr (rp', rh) \<Rightarrow>
                                    let lk3 = lk2\<lparr>right_history := rh\<rparr>
                                    in (lk3, Inr (compute_metrics lk3 lp' rp' w h))))
                  else (lk1, Inr (compute_metrics lk1 lp rp w h))))"

text \<open>
  The histories an engine can hold between two calls of \<^verbatim>\<open>detect\<close>: each is empty or
  no longer than \<^verbatim>\<open>history_size\<close>.
\<close>

definition history_bounded :: "LaneKeeping \<Rightarrow> bool" where
  "history_bounded lk =
     ((left_history lk = [] \<or> int (length (left_history lk)) \<le> history_size lk)
      \<and> (right_history lk = [] \<or> int (length (right_history lk)) \<le> history_size lk))"

section \<open>Service facade (backend/depth\_adas\_service.py)\<close>

text \<open>
  The part of \<^verbatim>\<open>DepthADASService\<close> that holds the ego velocity: its own copy and the
  collision warning engine it forwards every update to.
\<close>

record DepthADASService =
  service_ego_velocity :: real
  collision_warning :: CollisionWarning

text \<open>\<^verbatim>\<open>DepthADASService.update_ego_velocity\<close>.\<close>

definition service_update_ego_velocity :: "DepthADASService \<Rightarrow> real \<Rightarrow> DepthADASService" where
  "service_update_ego_velocity svc velocity =
     svc\<lparr>service_ego_velocity := max 0 velocity,
         collision_warning := update_ego_velocity (collision_warning svc) velocity\<rparr>"

section \<open>Scenarios\<close>

text \<open>
  The two objects of the self-test at the end of collision\_warning.py, which runs
  \<^verbatim>\<open>CollisionWarning(ego_velocity=15.0).analyze(test_objects, frame_width=640)\<close>.
\<close>

definition test_objects :: "Detection list" where
  "test_objects =
     [\<lparr>obj_object_id = Some 1, obj_object_class = Some ''car'', obj_distance = Some (Fin 8),
       obj_bbox = Some (BBox 300 200 400 350), obj_confidence = Some (9/10)\<rparr>,
      \<lparr>obj_object_id = Some 2, obj_object_class = Some ''person'', obj_distance = Some (Fin 5),
       obj_bbox = Some (BBox 320 250 360 400), obj_confidence = Some (85/100)\<rparr>]"

text \<open>The car of the self-test, seen at a distance \<open>d\<close>.\<close>

definition car_at :: "real \<Rightarrow> Detection" where
  "car_at d =
     \<lparr>obj_object_id = Some 1, obj_object_class = Some ''car'', obj_distance = Some (Fin d),
      obj_bbox = Some (BBox 300 200 400 350), obj_confidence = Some (9/10)\<rparr>"

text \<open>
  The engine after one frame at time \<open>t0\<close> with the car at distance \<open>d0\<close>, and the
  outcome of the next frame, half a second later, with the car at 8 m.
\<close>

definition after_first_frame :: "real \<Rightarrow> CollisionWarning" where
  "after_first_frame d0 =
     fst (analyze (\<lambda>obj. 0) 0 (new_collision_warning 15 (1/2) True) [car_at d0] 640 (Some 1))"

definition second_frame :: "real \<Rightarrow> py_error + WarningState" where
  "second_frame d0 =
     snd (analyze (\<lambda>obj. 0) 0 (after_first_frame d0) [car_at 8] 640 (Some (3/2)))"

text \<open>
  Two cars in one frame: one 5 m away at the right edge of the image (off the path), one
  8 m away straight ahead.
\<close>

definition edge_and_ahead :: "Detection list" where
  "edge_and_ahead =
     [\<lparr>obj_object_id = Some 1, obj_object_class = Some ''car'', obj_distance = Some (Fin 5),
       obj_bbox = Some (BBox 600 200 640 350), obj_confidence = Some (9/10)\<rparr>,
      \<lparr>obj_object_id = Some 2, obj_object_class = Some ''car'', obj_distance = Some (Fin 8),
       obj_bbox = Some (BBox 300 200 340 350), obj_confidence = Some (9/10)\<rparr>]"

text \<open>A fit that always succeeds with the vertical line \<open>x = c\<close>, and \<open>n\<close> matched pixels.\<close>

definition const_fit :: "real \<Rightarrow> int list \<Rightarrow> int list \<Rightarrow> py_error + poly2" where
  "const_fit c y x = Inr (0, 0, c)"

definition n_pixels :: "nat \<Rightarrow> pixels" where
  "n_pixels n = (replicate n 0, replicate n 0)"

text \<open>
  Matched pixels that lie in one column: \<open>n\<close> pixels with x = \<open>c\<close> in the rows
  \<open>0, \<dots>, n - 1\<close>. Their least-squares fit of x against y is the vertical line
  \<open>(0, 0, c)\<close>; \<open>column_fit\<close> returns it and stands for \<^verbatim>\<open>np.polyfit\<close> on such
  pixels.
\<close>

definition column_pixels :: "nat \<Rightarrow> int \<Rightarrow> pixels" where
  "column_pixels n c = (replicate n c, map int [0..<n])"

definition column_fit :: "int list \<Rightarrow> int list \<Rightarrow> py_error + poly2" where
  "column_fit y x = Inr (0, 0, real_of_int (hd x))"

text \<open>
  A lane engine after two frames: the left line at x = 100 and then at x = 120, the right
  line at x = 300 and then without pixels. And an engine after one frame with the left
  line only.
\<close>

definition lane_after_two_frames :: LaneKeeping where
  "lane_after_two_frames =
     fst (detect column_fit
            (fst (detect column_fit (new_lane_keeping (55/100) 7 True) 640 480
                    (column_pixels 101 100) (column_pixels 101 300)))
            640 480 (column_pixels 101 120) (column_pixels 0 300))"

definition lane_left_only :: LaneKeeping where
  "lane_left_only =
     fst (detect column_fit (new_lane_keeping (55/100) 7 True) 640 480
            (column_pixels 101 100) (column_pixels 0 300))"

section \<open>Evaluation rules\<close>

lemmas thresholds =
  TTC_CRITICAL_def TTC_DANGER_def TTC_WARNING_def TTC_INFO_def
  DIST_CRITICAL_def DIST_DANGER_def DIST_WARNING_def DIST_SAFE_def LATERAL_THRESHOLD_def

lemmas lane_constants =
  DRIFT_THRESHOLD_def DEPARTURE_THRESHOLD_def MIN_LANE_WIDTH_def MAX_LANE_WIDTH_def
  DEFAULT_LANE_WIDTH_def

lemmas collision_defs =
  analyze_def evaluate_threat_def lateral_of_def update_history_def estimate_velocity_def
  calculate_ttc_def determine_warning_level_def determine_warning_type_def
  generate_warning_message_def threat_key_def new_collision_warning_def

section \<open>The order on floats\<close>

lemma Fin_le_iff [simp]: "(Fin a \<le> Fin b) = (a \<le> b)"
  by simp

lemma Fin_less_iff [simp]: "(Fin a < Fin b) = (a < b)"
  by (auto simp: less_pyfloat_def)

lemma Fin_less_PInf [simp]: "Fin a < PInf"
  by (simp add: less_pyfloat_def)

lemma PInf_not_less [simp]: "\<not> PInf < x"
  by (cases x) (simp_all add: less_pyfloat_def)

lemma le_PInf [simp]: "x \<le> PInf"
  by (cases x) simp_all

section \<open>Properties of the distance estimator\<close>

text \<open>
  Claim C3. The depth-to-distance conversion returns the maximum distance 100 below depth
  0.01 and \<open>min (depth_scale / d) 100\<close> from 0.01 on; with a positive depth scale and
  \<open>d\<close> in \<open>[0.01, 1]\<close> this is the quotient clamped to \<open>[0, 100]\<close>.
\<close>

theorem depth_to_distance_law:
  "depth_to_distance est d =
     (if d < 1/100 then 100 else min (depth_scale (calibration est) / d) 100)
   \<and> (0 < depth_scale (calibration est) \<longrightarrow> 1/100 \<le> d \<longrightarrow> d \<le> 1 \<longrightarrow>
        depth_to_distance est d = np_clip (depth_scale (calibration est) / d) 0 100)"
proof (intro conjI impI)
  show "depth_to_distance est d =
     (if d < 1/100 then 100 else min (depth_scale (calibration est) / d) 100)"
    by (simp add: depth_to_distance_def Let_def)
next
  assume pos: "0 < depth_scale (calibration est)" and lo: "1/100 \<le> d" and hi: "d \<le> 1"
  from lo have "0 < d" by simp
  with pos have "0 < depth_scale (calibration est) / d" by simp
  then have "max (depth_scale (calibration est) / d) 0 = depth_scale (calibration est) / d"
    by simp
  with lo show "depth_to_distance est d = np_clip (depth_scale (calibration est) / d) 0 100"
    by (simp add: depth_to_distance_def np_clip_def Let_def)
qed

theorem depth_to_distance_law_witness:
  "0 < depth_scale (calibration (new_estimator None)) \<and> (1/100 :: real) \<le> 1/2 \<and> (1/2 :: real) \<le> 1
   \<and> depth_to_distance (new_estimator None) (1/2) = 20
   \<and> np_clip (depth_scale (calibration (new_estimator None)) / (1/2)) 0 100 = 20"
  using depth_to_distance_law [of "new_estimator None" "1/2"]
  by (simp add: new_estimator_def default_calibration_def np_clip_def)

text \<open>
  Claim C8, as stated, at depth value 0.005: the call returns normally and leaves the
  estimator as it was; nothing is raised.
\<close>

theorem calibrate_counterexample:
  "calibrate_from_known_distance (new_estimator None) (1/200) 10 = Inr (new_estimator None)
   \<and> \<not> raised (calibrate_from_known_distance (new_estimator None) (1/200) 10)"
  by (simp add: calibrate_from_known_distance_def raised_def)

text \<open>
  Claim C8, amended. For a depth value above 0.01 the call sets \<open>depth_scale\<close> to
  \<open>actual_distance * depth_value\<close> and changes nothing else; for a depth value of 0.01
  or less it returns normally with the estimator unchanged.
\<close>

theorem calibrate_law:
  "(dv > 1/100 \<longrightarrow>
      calibrate_from_known_distance est dv ad
        = Inr (est\<lparr>calibration := (calibration est)\<lparr>depth_scale := ad * dv\<rparr>\<rparr>))
   \<and> (dv \<le> 1/100 \<longrightarrow> calibrate_from_known_distance est dv ad = Inr est)"
  by (simp add: calibrate_from_known_distance_def)

theorem calibrate_law_witness:
  "(1/2 :: real) > 1/100 \<and> (1/200 :: real) \<le> 1/100
   \<and> map_sum id (\<lambda>e. depth_scale (calibration e))
        (calibrate_from_known_distance (new_estimator None) (1/2) 20) = Inr 10
   \<and> calibrate_from_known_distance (new_estimator None) (1/200) 20 = Inr (new_estimator None)"
  using calibrate_law [of "1/2" "new_estimator None" 20]
    calibrate_law [of "1/200" "new_estimator None" 20]
  by (simp add: new_estimator_def default_calibration_def)

section \<open>Properties of the collision warning engine\<close>

text \<open>
  Claim C2. A detection whose lateral offset exceeds 2.0 m in absolute value gets severity
  INFO when its distance is below 15 m and NONE otherwise, whatever its TTC: it never gets
  WARNING, DANGER or CRITICAL. This holds for the classifier and for every threat that
  \<^verbatim>\<open>_evaluate_threat\<close> builds.
\<close>

theorem off_path_severity:
  "(\<bar>lat\<bar> > 2 \<longrightarrow>
      determine_warning_level s d t lat cls = (if d < 15 then INFO else NONE)
      \<and> determine_warning_level s d t lat cls \<notin> {WARNING, DANGER, CRITICAL})
   \<and> (evaluate_threat hash_str s obj w ts = (s', Inr (Some th)) \<longrightarrow> \<bar>lateral_offset th\<bar> > 2 \<longrightarrow>
        warning_level th = (if distance th < 15 then INFO else NONE))"
proof (intro conjI impI)
  assume "\<bar>lat\<bar> > 2"
  then show "determine_warning_level s d t lat cls = (if d < 15 then INFO else NONE)"
    by (simp add: determine_warning_level_def thresholds)
  then show "determine_warning_level s d t lat cls \<notin> {WARNING, DANGER, CRITICAL}"
    by simp
next
  assume ev: "evaluate_threat hash_str s obj w ts = (s', Inr (Some th))"
    and lat: "\<bar>lateral_offset th\<bar> > 2"
  from ev obtain s1 dd tt l c where
    th: "lateral_offset th = l" "distance th = dd"
        "warning_level th = determine_warning_level s1 dd tt l c"
    by (auto simp: evaluate_threat_def Let_def split: pyfloat.splits if_splits sum.splits)
  with lat show "warning_level th = (if distance th < 15 then INFO else NONE)"
    by (simp add: determine_warning_level_def thresholds)
qed

theorem off_path_severity_witness:
  "\<bar>45/16 :: real\<bar> > 2
   \<and> determine_warning_level (new_collision_warning 10 (1/2) True) 5 (Fin (1/2)) (45/16) ''car'' = INFO
   \<and> snd (evaluate_threat (\<lambda>obj. 0) (new_collision_warning 10 (1/2) True) (hd edge_and_ahead) 640 1)
       = Inr (Some \<lparr>object_id = 1, object_class = ''car'', distance = 5,
          relative_velocity = 0, ttc = Fin (1 / 2),
          lateral_offset = 45 / 16, warning_level = INFO,
          warning_type = SIDE_COLLISION, confidence = 9 / 10\<rparr>)"
  using off_path_severity [where lat = "45/16" and s = "new_collision_warning 10 (1/2) True"
      and d = 5 and t = "Fin (1/2)" and cls = "''car''" and hash_str = "\<lambda>obj. 0"
      and obj = "hd edge_and_ahead" and w = 640 and ts = 1
      and s' = "fst (evaluate_threat (\<lambda>obj. 0) (new_collision_warning 10 (1/2) True) (hd edge_and_ahead) 640 1)"
      and th = "\<lparr>object_id = 1, object_class = ''car'', distance = 5,
          relative_velocity = 0, ttc = Fin (1 / 2),
          lateral_offset = 45 / 16, warning_level = INFO,
          warning_type = SIDE_COLLISION, confidence = 9 / 10\<rparr>"]
  by (simp add: edge_and_ahead_def collision_defs thresholds Let_def prod_eq_iff)

lemma update_history_ego: "ego_velocity (update_history s oid ts d l) = ego_velocity s"
  by (simp add: update_history_def Let_def)

text \<open>
  Claim C4. The closing velocity is \<open>ego_velocity - relative_velocity\<close>; the TTC is
  infinite when it is not positive and \<open>distance / closing_velocity\<close> when it is
  positive. \<^verbatim>\<open>_calculate_ttc\<close> is called from \<^verbatim>\<open>_evaluate_threat\<close> only, behind the
  guard that discards every distance \<open>\<le> 0\<close>, so the final \<^verbatim>\<open>max(0, ttc)\<close> never
  changes the quotient: the law holds of the function at every distance from 0 up and of
  every threat that is built. For a fixed positive distance the TTC does not increase
  when the closing velocity grows.
\<close>

theorem calculate_ttc_law:
  "(0 \<le> d \<longrightarrow>
      calculate_ttc s d rv =
        (if 0 < ego_velocity s - rv then Fin (d / (ego_velocity s - rv)) else PInf))
   \<and> (evaluate_threat hash_str s obj w ts = (s', Inr (Some th)) \<longrightarrow>
        0 < distance th
        \<and> ttc th =
            (if 0 < ego_velocity s - relative_velocity th
             then Fin (distance th / (ego_velocity s - relative_velocity th)) else PInf))
   \<and> (0 < d \<longrightarrow> ego_velocity s - rv1 \<le> ego_velocity s - rv2 \<longrightarrow>
        calculate_ttc s d rv2 \<le> calculate_ttc s d rv1)"
proof (intro conjI impI)
  assume "0 \<le> d"
  then show "calculate_ttc s d rv =
        (if 0 < ego_velocity s - rv then Fin (d / (ego_velocity s - rv)) else PInf)"
    by (simp add: calculate_ttc_def Let_def)
next
  assume ev: "evaluate_threat hash_str s obj w ts = (s', Inr (Some th))"
  from ev show "0 < distance th"
    by (auto simp: evaluate_threat_def Let_def split: pyfloat.splits if_splits sum.splits)
  from ev show "ttc th =
            (if 0 < ego_velocity s - relative_velocity th
             then Fin (distance th / (ego_velocity s - relative_velocity th)) else PInf)"
    by (auto simp: evaluate_threat_def Let_def calculate_ttc_def update_history_ego
             split: pyfloat.splits if_splits sum.splits)
next
  assume d: "0 < d" and le: "ego_velocity s - rv1 \<le> ego_velocity s - rv2"
  show "calculate_ttc s d rv2 \<le> calculate_ttc s d rv1"
  proof (cases "ego_velocity s - rv1 > 0")
    case False
    then show ?thesis by (simp add: calculate_ttc_def Let_def)
  next
    case True
    with le have pos2: "ego_velocity s - rv2 > 0" by simp
    from d True le have "d / (ego_velocity s - rv2) \<le> d / (ego_velocity s - rv1)"
      by (intro divide_left_mono) (simp_all add: mult_pos_pos pos2)
    then have "max 0 (d / (ego_velocity s - rv2)) \<le> max 0 (d / (ego_velocity s - rv1))"
      by (simp add: max_def)
    with True pos2 show ?thesis
      using d by (simp add: calculate_ttc_def Let_def not_le)
  qed
qed

theorem calculate_ttc_law_witness:
  "(0::real) \<le> 8 \<and> (0::real) < 8
   \<and> ego_velocity (new_collision_warning 15 (1/2) True) - 0
       \<le> ego_velocity (new_collision_warning 15 (1/2) True) - (- 5)
   \<and> calculate_ttc (new_collision_warning 15 (1/2) True) 8 0 = Fin (8/15)
   \<and> calculate_ttc (new_collision_warning 15 (1/2) True) 8 (- 5) = Fin (2/5)
   \<and> calculate_ttc (new_collision_warning 15 (1/2) True) 8 15 = PInf
   \<and> snd (evaluate_threat (\<lambda>obj. 0) (new_collision_warning 15 (1/2) True) (car_at 8) 640 1)
       = Inr (Some \<lparr>object_id = 1, object_class = ''car'', distance = 8,
            relative_velocity = 0, ttc = Fin (8/15), lateral_offset = 9/32,
            warning_level = CRITICAL, warning_type = FORWARD_COLLISION,
            confidence = 9/10\<rparr>)
   \<and> calculate_ttc (new_collision_warning 15 (1/2) True) 8 (- 5)
       \<le> calculate_ttc (new_collision_warning 15 (1/2) True) 8 0"
  using calculate_ttc_law [where s = "new_collision_warning 15 (1/2) True" and d = 8
      and rv = 0 and ?rv1.0 = 0 and ?rv2.0 = "- 5" and hash_str = "\<lambda>obj. 0"
      and obj = "car_at 8" and w = 640 and ts = 1
      and s' = "fst (evaluate_threat (\<lambda>obj. 0) (new_collision_warning 15 (1/2) True) (car_at 8) 640 1)"
      and th = "\<lparr>object_id = 1, object_class = ''car'', distance = 8,
            relative_velocity = 0, ttc = Fin (8/15), lateral_offset = 9/32,
            warning_level = CRITICAL, warning_type = FORWARD_COLLISION,
            confidence = 9/10\<rparr>"]
  by (simp add: car_at_def collision_defs thresholds Let_def prod_eq_iff)

lemma evaluate_threat_ego:
  "ego_velocity (fst (evaluate_threat hash_str s obj w ts)) = ego_velocity s"
  by (simp add: evaluate_threat_def Let_def update_history_ego
           split: pyfloat.splits sum.splits)

lemma analyze_loop_ego:
  "ego_velocity (fst (analyze_loop hash_str s objs w ts acc)) = ego_velocity s"
proof (induction objs arbitrary: s acc)
  case Nil
  show ?case by simp
next
  case (Cons obj objs)
  show ?case
  proof (cases "(case obj_confidence obj of None \<Rightarrow> 1 | Some c \<Rightarrow> c) < min_confidence s")
    case True
    then show ?thesis using Cons.IH by simp
  next
    case False
    obtain s1 r where ev: "evaluate_threat hash_str s obj w ts = (s1, r)"
      by (cases "evaluate_threat hash_str s obj w ts")
    then have s1: "ego_velocity s1 = ego_velocity s"
      using evaluate_threat_ego [of hash_str s obj w ts] by simp
    show ?thesis
      using False ev s1 Cons.IH
      by (simp split: sum.splits option.splits)
  qed
qed

text \<open>
  Claim C10. After \<^verbatim>\<open>update_ego_velocity(v)\<close> the stored ego velocity is \<open>max 0 v\<close>,
  in the engine and in the service that forwards the call, so it is never negative
  afterwards; \<^verbatim>\<open>analyze\<close> leaves the ego velocity as it was, whether it returns or
  raises.
\<close>

theorem ego_velocity_invariant:
  "ego_velocity (update_ego_velocity s v) = max 0 v
   \<and> 0 \<le> ego_velocity (update_ego_velocity s v)
   \<and> ego_velocity (collision_warning (service_update_ego_velocity svc v)) = max 0 v
   \<and> service_ego_velocity (service_update_ego_velocity svc v) = max 0 v
   \<and> ego_velocity (fst (analyze hash_str now s objs w ts)) = ego_velocity s"
proof -
  obtain s1 r where lp:
    "analyze_loop hash_str s objs w
       (case ts of None \<Rightarrow> now | Some t \<Rightarrow> if t = 0 then now else t) [] = (s1, r)"
    by (cases "analyze_loop hash_str s objs w
       (case ts of None \<Rightarrow> now | Some t \<Rightarrow> if t = 0 then now else t) []")
  then have "ego_velocity s1 = ego_velocity s"
    using analyze_loop_ego [of hash_str s objs w
       "case ts of None \<Rightarrow> now | Some t \<Rightarrow> if t = 0 then now else t" "[]"] by simp
  with lp have "ego_velocity (fst (analyze hash_str now s objs w ts)) = ego_velocity s"
    by (simp add: analyze_def Let_def split: sum.splits list.splits)
  then show ?thesis
    by (simp add: update_ego_velocity_def service_update_ego_velocity_def)
qed

text \<open>
  Claim C1 at the input of the module's own self-test: both objects are CRITICAL threats,
  the sorted list has two elements, and taking \<^verbatim>\<open>max\<close> of their warning levels raises
  \<^verbatim>\<open>TypeError\<close>. No warning state is returned.
\<close>

theorem analyze_self_test_raises:
  "snd (analyze hash_str now (new_collision_warning 15 (1/2) True) test_objects 640 None)
     = Inl TypeError"
  by (simp add: test_objects_def collision_defs thresholds Let_def)

text \<open>
  What does hold of a returned warning state: it has at most one threat, which is then
  the primary threat and carries the highest level.
\<close>

lemma analyze_returns_at_most_one:
  assumes "snd (analyze hash_str now s objs w ts) = Inr ws"
  shows "length (active_threats ws) \<le> 1"
    and "sorted (map threat_key (active_threats ws))"
    and "active_threats ws \<noteq> [] \<Longrightarrow> warning_level (hd (active_threats ws)) = highest_level ws"
proof -
  let ?ts = "case ts of None \<Rightarrow> now | Some t \<Rightarrow> if t = 0 then now else t"
  obtain s1 r where lp: "analyze_loop hash_str s objs w ?ts [] = (s1, r)"
    by (cases "analyze_loop hash_str s objs w ?ts []")
  with assms obtain col where r: "r = Inr col"
    by (cases r) (simp_all add: analyze_def Let_def)
  show "length (active_threats ws) \<le> 1"
  proof (cases "sort_key threat_key col")
    case Nil
    with assms lp r show ?thesis by (auto simp: analyze_def Let_def)
  next
    case (Cons a rest)
    with assms lp r show ?thesis
      by (cases rest) (auto simp: analyze_def Let_def)
  qed
  then show "sorted (map threat_key (active_threats ws))"
    by (cases "active_threats ws") (auto simp: le_Suc_eq)
  show "active_threats ws \<noteq> [] \<Longrightarrow> warning_level (hd (active_threats ws)) = highest_level ws"
  proof (cases "sort_key threat_key col")
    case Nil
    with assms lp r show "active_threats ws \<noteq> [] \<Longrightarrow> ?thesis" by (auto simp: analyze_def Let_def)
  next
    case (Cons a rest)
    with assms lp r show ?thesis
      by (cases rest) (auto simp: analyze_def Let_def)
  qed
qed

text \<open>
  The order of the threats does not follow their severity: of the two cars of
  \<open>edge_and_ahead\<close>, the one at the edge of the image has the lower TTC and comes first,
  with level INFO, before the CRITICAL one straight ahead.
\<close>

lemma sorted_threats_not_by_severity:
  "map_sum id (\<lambda>col. map (\<lambda>t. (ttc t, distance t, warning_level t)) (sort_key threat_key col))
     (snd (analyze_loop hash_str (new_collision_warning 10 (1/2) True) edge_and_ahead 640 1 []))
   = Inr [(Fin (1/2), 5, INFO), (Fin (4/5), 8, CRITICAL)]"
  by (simp add: edge_and_ahead_def collision_defs thresholds Let_def)

text \<open>
  Claim C5, as stated, for a car that closes in at 5 m/s: seen at 10.5 m and, half a second
  later, at 8 m, its relative velocity is -5 (negative is approaching), so with ego
  velocity 15 the closing velocity is 20 and the TTC 0.4 s, not 10 and 0.8 s.
\<close>

theorem closing_car_counterexample:
  "(case second_frame (21/2) of
      Inl e \<Rightarrow> False
    | Inr ws \<Rightarrow>
        map (\<lambda>t. (object_class t, distance t, relative_velocity t,
                   ego_velocity (after_first_frame (21/2)) - relative_velocity t, ttc t))
          (active_threats ws) = [(''car'', 8, - 5, 20, Fin (2/5))])"
  by (simp add: second_frame_def after_first_frame_def car_at_def collision_defs thresholds Let_def)

text \<open>
  Claim C5, amended. With ego velocity 15, a car at 8 m whose distance shrinks by 5 m/s
  has relative velocity -5, closing velocity 20 and TTC 0.4 s; a closing velocity of 10
  and a TTC of 0.8 s belong to relative velocity +5, a car whose distance grows by 5 m/s
  (seen at 5.5 m half a second before). In both cases the severity is CRITICAL and the
  returned warning state has the brake assist flag set.
\<close>

theorem car_at_8m_scenario:
  "(case second_frame (21/2) of
      Inl e \<Rightarrow> False
    | Inr ws \<Rightarrow>
        map (\<lambda>t. (object_class t, distance t, relative_velocity t,
                   ego_velocity (after_first_frame (21/2)) - relative_velocity t, ttc t,
                   warning_level t))
          (active_threats ws) = [(''car'', 8, - 5, 20, Fin (2/5), CRITICAL)]
        \<and> highest_level ws = CRITICAL \<and> brake_assist_triggered ws)
   \<and> (case second_frame (11/2) of
      Inl e \<Rightarrow> False
    | Inr ws \<Rightarrow>
        map (\<lambda>t. (object_class t, distance t, relative_velocity t,
                   ego_velocity (after_first_frame (11/2)) - relative_velocity t, ttc t,
                   warning_level t))
          (active_threats ws) = [(''car'', 8, 5, 10, Fin (4/5), CRITICAL)]
        \<and> highest_level ws = CRITICAL \<and> brake_assist_triggered ws)"
  by (simp add: second_frame_def after_first_frame_def car_at_def collision_defs thresholds Let_def)

section \<open>Properties of the lane keeping engine\<close>

lemma compute_metrics_polys:
  "left_poly (compute_metrics lk lp rp w h) = lp"
  "right_poly (compute_metrics lk lp rp w h) = rp"
  by (cases lp; cases rp; simp add: compute_metrics_def Let_def split: prod.splits)+

lemma compute_metrics_confidence:
  "lane_confidence (compute_metrics lk lp rp w h)
     = (if lp \<noteq> None then 1/2 else 0) + (if rp \<noteq> None then 1/2 else 0)"
  by (cases lp; cases rp; simp add: compute_metrics_def Let_def split: prod.splits)

lemma raw_fit_cases:
  "raw_fit polyfit px =
     (if length (fst px) \<le> 100 then Inr None
      else case polyfit (snd px) (fst px) of
             Inr coeffs \<Rightarrow> Inr (Some coeffs)
           | Inl e \<Rightarrow> if e = RankWarning \<or> e = LinAlgError then Inr None else Inl e)"
  by (cases px) (simp add: raw_fit_def fit_polynomial_def split: sum.splits py_error.splits)

lemma smooth_lane_returns:
  "0 \<le> history_size lk \<Longrightarrow> \<not> raised (smooth_lane lk p hist)"
  by (cases p; cases hist) (simp_all add: smooth_lane_def raised_def Let_def split: list.splits)

lemma detect_returns:
  assumes l: "\<not> raised (raw_fit polyfit lpx)" and r: "\<not> raised (raw_fit polyfit rpx)"
    and hs: "0 \<le> history_size lk"
  shows "\<not> raised (snd (detect polyfit lk w h lpx rpx))"
proof -
  from l obtain lp where lp: "raw_fit polyfit lpx = Inr lp"
    by (cases "raw_fit polyfit lpx") (simp_all add: raised_def)
  from r obtain rp where rp: "raw_fit polyfit rpx = Inr rp"
    by (cases "raw_fit polyfit rpx") (simp_all add: raised_def)
  let ?lk1 = "if perspective lk = None then lk\<lparr>perspective := Some (w, h)\<rparr> else lk"
  have hs1: "0 \<le> history_size ?lk1" using hs by simp
  then obtain lp' lh where sl: "smooth_lane ?lk1 lp (left_history ?lk1) = Inr (lp', lh)"
    using smooth_lane_returns [of ?lk1 lp "left_history ?lk1"]
    by (cases "smooth_lane ?lk1 lp (left_history ?lk1)") (auto simp: raised_def)
  let ?lk2 = "?lk1\<lparr>left_history := lh\<rparr>"
  have hs2: "0 \<le> history_size ?lk2" using hs by simp
  then obtain rp' rh where sr: "smooth_lane ?lk2 rp (right_history ?lk2) = Inr (rp', rh)"
    using smooth_lane_returns [of ?lk2 rp "right_history ?lk2"]
    by (cases "smooth_lane ?lk2 rp (right_history ?lk2)") (auto simp: raised_def)
  show ?thesis
    using lp rp sl sr by (simp add: detect_def Let_def raised_def)
qed

text \<open>
  Claim C6, as stated, at 50 matched pixels on each side, with a fit that would succeed:
  \<^verbatim>\<open>_fit_polynomial\<close> alone would return coefficients, but \<^verbatim>\<open>detect\<close> calls it only
  above 100 pixels, so the raw fit of both sides is \<^verbatim>\<open>None\<close>.
\<close>

theorem lane_fit_counterexample:
  "10 \<le> length (fst (n_pixels 50))
   \<and> fit_polynomial (const_fit 100) (n_pixels 50) = Inr (Some (0, 0, 100))
   \<and> raw_fit (const_fit 100) (n_pixels 50) = Inr None
   \<and> map_sum id (\<lambda>st. (left_poly st, right_poly st))
        (snd (detect (const_fit 100) (new_lane_keeping (55/100) 7 False) 640 480
                (n_pixels 50) (n_pixels 50)))
       = Inr (None, None)"
  by (simp add: n_pixels_def const_fit_def fit_polynomial_def raw_fit_def detect_def
        new_lane_keeping_def compute_metrics_polys Let_def)

text \<open>
  Claim C6, amended. A side with 100 matched pixels or fewer (so also one with fewer than
  10) has the raw fit \<^verbatim>\<open>None\<close>, whatever the fitting routine does. A side with more
  than 100 matched pixels gets the coefficients of the degree-2 fit of x against y, or
  \<^verbatim>\<open>None\<close> when the fit raises \<^verbatim>\<open>RankWarning\<close> or \<^verbatim>\<open>LinAlgError\<close>. Lane
  detection raises nothing when the fit raises nothing else and \<^verbatim>\<open>history_size\<close> is
  not negative.
\<close>

theorem lane_fit_gate:
  "(length (fst px) \<le> 100 \<longrightarrow> raw_fit polyfit px = Inr None)
   \<and> (100 < length (fst px) \<longrightarrow>
        raw_fit polyfit px =
          (case polyfit (snd px) (fst px) of
             Inr coeffs \<Rightarrow> Inr (Some coeffs)
           | Inl e \<Rightarrow> if e = RankWarning \<or> e = LinAlgError then Inr None else Inl e))
   \<and> ((\<forall>y x e. polyfit y x = Inl e \<longrightarrow> e = RankWarning \<or> e = LinAlgError) \<longrightarrow>
        0 \<le> history_size lk \<longrightarrow>
        \<not> raised (snd (detect polyfit lk w h lpx rpx)))"
proof (intro conjI impI)
  assume "length (fst px) \<le> 100"
  then show "raw_fit polyfit px = Inr None" by (simp add: raw_fit_cases)
next
  assume "100 < length (fst px)"
  then show "raw_fit polyfit px =
          (case polyfit (snd px) (fst px) of
             Inr coeffs \<Rightarrow> Inr (Some coeffs)
           | Inl e \<Rightarrow> if e = RankWarning \<or> e = LinAlgError then Inr None else Inl e)"
    by (simp add: raw_fit_cases)
next
  assume caught: "\<forall>y x e. polyfit y x = Inl e \<longrightarrow> e = RankWarning \<or> e = LinAlgError"
    and hs: "0 \<le> history_size lk"
  have "\<not> raised (raw_fit polyfit q)" for q
    using caught by (auto simp: raw_fit_cases raised_def split: sum.splits)
  then show "\<not> raised (snd (detect polyfit lk w h lpx rpx))"
    using hs by (intro detect_returns) simp_all
qed

theorem lane_fit_gate_witness:
  "length (fst (n_pixels 9)) \<le> 100 \<and> 100 < length (fst (n_pixels 101))
   \<and> 0 \<le> history_size (new_lane_keeping (55/100) 7 True)
   \<and> raw_fit (const_fit 100) (n_pixels 9) = Inr None
   \<and> raw_fit (const_fit 100) (n_pixels 101) = Inr (Some (0, 0, 100))
   \<and> \<not> raised (snd (detect (const_fit 100) (new_lane_keeping (55/100) 7 True) 640 480
                      (n_pixels 9) (n_pixels 101)))"
  using lane_fit_gate [where px = "n_pixels 9" and polyfit = "const_fit 100"
      and lk = "new_lane_keeping (55/100) 7 True" and w = 640 and h = 480
      and lpx = "n_pixels 9" and rpx = "n_pixels 101"]
    lane_fit_gate [where px = "n_pixels 101" and polyfit = "const_fit 100"
      and lk = "new_lane_keeping (55/100) 7 True" and w = 640 and h = 480
      and lpx = "n_pixels 9" and rpx = "n_pixels 101"]
  by (simp add: n_pixels_def const_fit_def new_lane_keeping_def)

text \<open>
  Claim C7. With only the left polynomial present, the estimated lane centre is the left
  line's x at the bottom row of the canvas plus half the default lane width (3.5 m) in
  pixels, and the centre offset is the canvas centre minus that estimate, divided by the
  pixels-per-metre factor; with only the right polynomial the half width is subtracted.
  With the engine's constants and a left line at x = 150 the offset is
  (200 - (150 + 175)) / 100.
\<close>

theorem single_side_center:
  "center_offset (compute_metrics lk (Some l) None w h)
     = (real_of_int (fst (warped_size lk)) / 2
          - (polyval l (real_of_int (snd (warped_size lk)) - 1)
               + ppm_bottom lk * DEFAULT_LANE_WIDTH / 2)) / ppm_bottom lk
   \<and> center_offset (compute_metrics lk None (Some r) w h)
     = (real_of_int (fst (warped_size lk)) / 2
          - (polyval r (real_of_int (snd (warped_size lk)) - 1)
               - ppm_bottom lk * DEFAULT_LANE_WIDTH / 2)) / ppm_bottom lk
   \<and> DEFAULT_LANE_WIDTH = 7/2
   \<and> polyval (0, 0, 150) 599 = 150
   \<and> center_offset (compute_metrics (new_lane_keeping (55/100) 7 True) (Some (0, 0, 150)) None w h)
     = (200 - (150 + 175)) / 100"
  by (simp add: compute_metrics_def Let_def polyval_def DEFAULT_LANE_WIDTH_def
        new_lane_keeping_def default_lane_state_def)

lemma smooth_lane_stale:
  "hist \<noteq> [] \<Longrightarrow> int (length hist) \<le> history_size lk \<Longrightarrow>
     smooth_lane lk None hist = Inr (Some (mean_poly hist), hist)"
  by (simp add: smooth_lane_def Let_def)

lemma smooth_lane_bound:
  assumes "hist = [] \<or> int (length hist) \<le> history_size lk"
    and "smooth_lane lk p hist = Inr (q, hist')"
  shows "hist' = [] \<or> int (length hist') \<le> history_size lk"
  using assms
  by (cases p; cases hist) (auto simp: smooth_lane_def Let_def split: if_splits list.splits)

text \<open>
  A new engine has bounded histories, and \<^verbatim>\<open>detect\<close> keeps them bounded and never
  changes \<^verbatim>\<open>history_size\<close>, whether it returns or raises.
\<close>

lemma new_lane_keeping_bounded: "history_bounded (new_lane_keeping roi hs sm)"
  by (simp add: history_bounded_def new_lane_keeping_def)

lemma detect_history_size:
  "history_size (fst (detect polyfit lk w h lpx rpx)) = history_size lk"
  by (simp add: detect_def Let_def split: sum.splits prod.splits)

lemma detect_bounded:
  assumes "history_bounded lk"
  shows "history_bounded (fst (detect polyfit lk w h lpx rpx))"
proof -
  let ?lk1 = "if perspective lk = None then lk\<lparr>perspective := Some (w, h)\<rparr> else lk"
  have b1: "history_bounded ?lk1" using assms by (simp add: history_bounded_def)
  have step: "history_bounded (?lk1\<lparr>left_history := lh\<rparr>)"
    if "smooth_lane ?lk1 lp (left_history ?lk1) = Inr (lp', lh)" for lp lp' lh
    using smooth_lane_bound [OF _ that] b1 by (auto simp: history_bounded_def)
  have step2: "history_bounded (?lk1\<lparr>left_history := lh, right_history := rh\<rparr>)"
    if "smooth_lane ?lk1 lp (left_history ?lk1) = Inr (lp', lh)"
      and "smooth_lane (?lk1\<lparr>left_history := lh\<rparr>) rp (right_history ?lk1) = Inr (rp', rh)"
    for lp lp' lh rp rp' rh
    using step [OF that(1)] smooth_lane_bound [OF _ that(2)]
    by (auto simp: history_bounded_def)
  show ?thesis
    using b1 step step2
    by (auto simp: detect_def Let_def split: sum.splits prod.splits)
qed

lemma detect_left_stale:
  assumes sm: "enable_smoothing lk"
    and l: "raw_fit polyfit lpx = Inr None"
    and lh: "left_history lk \<noteq> []" "int (length (left_history lk)) \<le> history_size lk"
    and r: "raw_fit polyfit rpx = Inr rp"
  shows "\<exists>lk' rp'. detect polyfit lk w h lpx rpx
            = (lk', Inr (compute_metrics lk' (Some (mean_poly (left_history lk))) rp' w h))
          \<and> left_history lk' = left_history lk"
proof -
  let ?lk1 = "if perspective lk = None then lk\<lparr>perspective := Some (w, h)\<rparr> else lk"
  let ?lk2 = "?lk1\<lparr>left_history := left_history lk\<rparr>"
  have sl: "smooth_lane ?lk1 None (left_history ?lk1)
      = Inr (Some (mean_poly (left_history lk)), left_history lk)"
    using lh by (simp add: smooth_lane_def Let_def)
  from lh have "0 \<le> history_size ?lk2" by simp
  then obtain rp' rh where sr: "smooth_lane ?lk2 rp (right_history ?lk2) = Inr (rp', rh)"
    using smooth_lane_returns [of ?lk2 rp "right_history ?lk2"]
    by (cases "smooth_lane ?lk2 rp (right_history ?lk2)") (auto simp: raised_def)
  show ?thesis
    using sm l r sl sr by (auto simp: detect_def Let_def)
qed

lemma detect_right_stale:
  assumes sm: "enable_smoothing lk"
    and r: "raw_fit polyfit rpx = Inr None"
    and rh: "right_history lk \<noteq> []" "int (length (right_history lk)) \<le> history_size lk"
    and l: "raw_fit polyfit lpx = Inr lp"
  shows "\<exists>lk' lp'. detect polyfit lk w h lpx rpx
            = (lk', Inr (compute_metrics lk' lp' (Some (mean_poly (right_history lk))) w h))
          \<and> right_history lk' = right_history lk"
proof -
  let ?lk1 = "if perspective lk = None then lk\<lparr>perspective := Some (w, h)\<rparr> else lk"
  from rh have "0 \<le> history_size ?lk1" by simp
  then obtain lp' lh where sl: "smooth_lane ?lk1 lp (left_history ?lk1) = Inr (lp', lh)"
    using smooth_lane_returns [of ?lk1 lp "left_history ?lk1"]
    by (cases "smooth_lane ?lk1 lp (left_history ?lk1)") (auto simp: raised_def)
  have sr: "smooth_lane (?lk1\<lparr>left_history := lh\<rparr>) None (right_history (?lk1\<lparr>left_history := lh\<rparr>))
      = Inr (Some (mean_poly (right_history lk)), right_history lk)"
    using rh by (simp add: smooth_lane_def Let_def)
  show ?thesis
    using sm l r sl sr by (auto simp: detect_def Let_def)
qed

lemma detect_Inr_raw_fits:
  assumes "detect polyfit lk w h lpx rpx = (lk', Inr st)"
  shows "\<exists>lp rp. raw_fit polyfit lpx = Inr lp \<and> raw_fit polyfit rpx = Inr rp"
  using assms by (auto simp: detect_def Let_def split: sum.splits)

text \<open>
  Claim C9. With smoothing enabled, a side whose fit of the frame is \<^verbatim>\<open>None\<close> while
  its history holds a polynomial of an earlier frame is reported as the mean of that
  history, which stays as it is, and this side counts exactly 0.5 towards the
  confidence: the confidence is 0.5 plus what the other side counts, 0.5 when it is
  reported and 0 when it is not. The call returns whenever the fit of the other side does
  not raise. When both sides are in this situation the confidence of the frame is 1.0
  although neither side was fitted.
\<close>

theorem stale_lane_is_reported:
  assumes "enable_smoothing lk"
  shows "(raw_fit polyfit lpx = Inr None \<and> left_history lk \<noteq> []
            \<and> int (length (left_history lk)) \<le> history_size lk \<longrightarrow>
          (\<forall>lk' st. detect polyfit lk w h lpx rpx = (lk', Inr st) \<longrightarrow>
             left_poly st = Some (mean_poly (left_history lk))
             \<and> left_history lk' = left_history lk
             \<and> lane_confidence st = 1/2 + (if right_poly st = None then 0 else 1/2))
          \<and> (\<not> raised (raw_fit polyfit rpx) \<longrightarrow>
               \<not> raised (snd (detect polyfit lk w h lpx rpx))))
       \<and> (raw_fit polyfit rpx = Inr None \<and> right_history lk \<noteq> []
            \<and> int (length (right_history lk)) \<le> history_size lk \<longrightarrow>
          (\<forall>lk' st. detect polyfit lk w h lpx rpx = (lk', Inr st) \<longrightarrow>
             right_poly st = Some (mean_poly (right_history lk))
             \<and> right_history lk' = right_history lk
             \<and> lane_confidence st = (if left_poly st = None then 0 else 1/2) + 1/2)
          \<and> (\<not> raised (raw_fit polyfit lpx) \<longrightarrow>
               \<not> raised (snd (detect polyfit lk w h lpx rpx))))
       \<and> (raw_fit polyfit lpx = Inr None \<and> left_history lk \<noteq> []
            \<and> int (length (left_history lk)) \<le> history_size lk
            \<and> raw_fit polyfit rpx = Inr None \<and> right_history lk \<noteq> []
            \<and> int (length (right_history lk)) \<le> history_size lk \<longrightarrow>
          (\<exists>lk' st. detect polyfit lk w h lpx rpx = (lk', Inr st)
             \<and> left_poly st = Some (mean_poly (left_history lk))
             \<and> right_poly st = Some (mean_poly (right_history lk))
             \<and> lane_confidence st = 1))"
proof (intro conjI impI allI)
  fix lk' st
  assume a: "raw_fit polyfit lpx = Inr None \<and> left_history lk \<noteq> []
            \<and> int (length (left_history lk)) \<le> history_size lk"
    and d: "detect polyfit lk w h lpx rpx = (lk', Inr st)"
  from detect_Inr_raw_fits [OF d] obtain rp where "raw_fit polyfit rpx = Inr rp" by blast
  from detect_left_stale [OF assms _ _ _ this, of lpx w h] a d
  obtain rp' where st: "st = compute_metrics lk' (Some (mean_poly (left_history lk))) rp' w h"
    and lh: "left_history lk' = left_history lk"
    by auto
  from st show "left_poly st = Some (mean_poly (left_history lk))"
    by (simp add: compute_metrics_polys)
  from lh show "left_history lk' = left_history lk" .
  from st show "lane_confidence st = 1/2 + (if right_poly st = None then 0 else 1/2)"
    by (simp add: compute_metrics_polys compute_metrics_confidence)
next
  assume a: "raw_fit polyfit lpx = Inr None \<and> left_history lk \<noteq> []
            \<and> int (length (left_history lk)) \<le> history_size lk"
    and nr: "\<not> raised (raw_fit polyfit rpx)"
  from nr obtain rp where "raw_fit polyfit rpx = Inr rp"
    by (cases "raw_fit polyfit rpx") (simp_all add: raised_def)
  from detect_left_stale [OF assms _ _ _ this, of lpx w h] a
  show "\<not> raised (snd (detect polyfit lk w h lpx rpx))"
    by (auto simp: raised_def)
next
  fix lk' st
  assume a: "raw_fit polyfit rpx = Inr None \<and> right_history lk \<noteq> []
            \<and> int (length (right_history lk)) \<le> history_size lk"
    and d: "detect polyfit lk w h lpx rpx = (lk', Inr st)"
  from detect_Inr_raw_fits [OF d] obtain lp where "raw_fit polyfit lpx = Inr lp" by blast
  from detect_right_stale [OF assms _ _ _ this, of rpx w h] a d
  obtain lp' where st: "st = compute_metrics lk' lp' (Some (mean_poly (right_history lk))) w h"
    and rh: "right_history lk' = right_history lk"
    by auto
  from st show "right_poly st = Some (mean_poly (right_history lk))"
    by (simp add: compute_metrics_polys)
  from rh show "right_history lk' = right_history lk" .
  from st show "lane_confidence st = (if left_poly st = None then 0 else 1/2) + 1/2"
    by (simp add: compute_metrics_polys compute_metrics_confidence)
next
  assume a: "raw_fit polyfit rpx = Inr None \<and> right_history lk \<noteq> []
            \<and> int (length (right_history lk)) \<le> history_size lk"
    and nr: "\<not> raised (raw_fit polyfit lpx)"
  from nr obtain lp where "raw_fit polyfit lpx = Inr lp"
    by (cases "raw_fit polyfit lpx") (simp_all add: raised_def)
  from detect_right_stale [OF assms _ _ _ this, of rpx w h] a
  show "\<not> raised (snd (detect polyfit lk w h lpx rpx))"
    by (auto simp: raised_def)
next
  assume a: "raw_fit polyfit lpx = Inr None \<and> left_history lk \<noteq> []
            \<and> int (length (left_history lk)) \<le> history_size lk
            \<and> raw_fit polyfit rpx = Inr None \<and> right_history lk \<noteq> []
            \<and> int (length (right_history lk)) \<le> history_size lk"
  have sr: "smooth_lane lk2 None (right_history lk)
      = Inr (Some (mean_poly (right_history lk)), right_history lk)"
    if "history_size lk2 = history_size lk" for lk2
    using a that by (simp add: smooth_lane_def Let_def)
  from a have sl: "smooth_lane lk1 None (left_history lk)
      = Inr (Some (mean_poly (left_history lk)), left_history lk)"
    if "history_size lk1 = history_size lk" for lk1
    using that by (simp add: smooth_lane_def Let_def)
  from a assms show "\<exists>lk' st. detect polyfit lk w h lpx rpx = (lk', Inr st)
             \<and> left_poly st = Some (mean_poly (left_history lk))
             \<and> right_poly st = Some (mean_poly (right_history lk))
             \<and> lane_confidence st = 1"
    by (auto simp: detect_def Let_def sl sr compute_metrics_polys compute_metrics_confidence)
qed

lemma column_fits:
  "raw_fit column_fit (column_pixels 101 100) = Inr (Some (0, 0, 100))"
  "raw_fit column_fit (column_pixels 101 120) = Inr (Some (0, 0, 120))"
  "raw_fit column_fit (column_pixels 101 300) = Inr (Some (0, 0, 300))"
  "raw_fit column_fit (column_pixels 40 110) = Inr None"
  "raw_fit column_fit (column_pixels 0 300) = Inr None"
  "raw_fit column_fit (column_pixels 0 0) = Inr None"
  by (simp_all add: raw_fit_def fit_polynomial_def column_pixels_def column_fit_def)

lemma lane_left_only_eq:
  "lane_left_only =
     \<lparr>roi_top_ratio = 55/100, history_size = 7, enable_smoothing = True,
      left_history = [(0, 0, 100)], right_history = [],
      ppm_bottom = 100, ppm_top = 30, perspective = Some (640, 480),
      warped_size = (400, 600)\<rparr>"
  by (simp add: lane_left_only_def detect_def column_fits new_lane_keeping_def
        smooth_lane_def Let_def)

lemma lane_after_two_frames_eq:
  "lane_after_two_frames =
     \<lparr>roi_top_ratio = 55/100, history_size = 7, enable_smoothing = True,
      left_history = [(0, 0, 100), (0, 0, 120)], right_history = [(0, 0, 300)],
      ppm_bottom = 100, ppm_top = 30, perspective = Some (640, 480),
      warped_size = (400, 600)\<rparr>"
  by (simp add: lane_after_two_frames_def detect_def column_fits new_lane_keeping_def
        smooth_lane_def Let_def)

lemma stale_frame_left_only:
  "detect column_fit lane_left_only 640 480 (column_pixels 40 110) (column_pixels 0 0)
     = (lane_left_only,
        Inr (compute_metrics lane_left_only (Some (0, 0, 100)) None 640 480))"
  by (simp add: lane_left_only_eq detect_def column_fits smooth_lane_def
        mean_poly_def Let_def)

theorem stale_lane_is_reported_witness:
  "enable_smoothing lane_after_two_frames
   \<and> raw_fit column_fit (column_pixels 40 110) = Inr None
   \<and> raw_fit column_fit (column_pixels 0 0) = Inr None
   \<and> left_history lane_after_two_frames = [(0, 0, 100), (0, 0, 120)]
   \<and> int (length (left_history lane_after_two_frames)) \<le> history_size lane_after_two_frames
   \<and> right_history lane_after_two_frames = [(0, 0, 300)]
   \<and> int (length (right_history lane_after_two_frames)) \<le> history_size lane_after_two_frames
   \<and> map_sum id (\<lambda>st. (left_poly st, right_poly st, lane_confidence st))
        (snd (detect column_fit lane_after_two_frames 640 480
                (column_pixels 40 110) (column_pixels 0 0)))
       = Inr (Some (0, 0, 110), Some (0, 0, 300), 1)
   \<and> enable_smoothing lane_left_only
   \<and> left_history lane_left_only = [(0, 0, 100)]
   \<and> int (length (left_history lane_left_only)) \<le> history_size lane_left_only
   \<and> right_history lane_left_only = []
   \<and> map_sum id (\<lambda>st. (left_poly st, right_poly st, lane_confidence st))
        (snd (detect column_fit lane_left_only 640 480
                (column_pixels 40 110) (column_pixels 0 0)))
       = Inr (Some (0, 0, 100), None, 1/2)"
proof -
  let ?none = "column_pixels 0 0" and ?few = "column_pixels 40 110"
  have both: "enable_smoothing lane_after_two_frames"
      "left_history lane_after_two_frames = [(0, 0, 100), (0, 0, 120)]"
      "right_history lane_after_two_frames = [(0, 0, 300)]"
      "history_size lane_after_two_frames = 7"
    by (simp_all add: lane_after_two_frames_eq)
  have left: "enable_smoothing lane_left_only"
      "left_history lane_left_only = [(0, 0, 100)]"
      "right_history lane_left_only = []"
      "history_size lane_left_only = 7"
    by (simp_all add: lane_left_only_eq)
  have means: "mean_poly [(0, 0, 100), (0, 0, 120)] = (0, 0, 110)"
      "mean_poly [(0, 0, 300)] = (0, 0, 300)" "mean_poly [(0, 0, 100)] = (0, 0, 100)"
    by (simp_all add: mean_poly_def)
  have hyp_both:
    "raw_fit column_fit ?few = Inr None \<and> left_history lane_after_two_frames \<noteq> []
       \<and> int (length (left_history lane_after_two_frames)) \<le> history_size lane_after_two_frames
       \<and> raw_fit column_fit ?none = Inr None \<and> right_history lane_after_two_frames \<noteq> []
       \<and> int (length (right_history lane_after_two_frames)) \<le> history_size lane_after_two_frames"
    by (simp add: both column_fits)
  have hyp_left:
    "raw_fit column_fit ?few = Inr None \<and> left_history lane_left_only \<noteq> []
       \<and> int (length (left_history lane_left_only)) \<le> history_size lane_left_only"
    by (simp add: left column_fits)
  note inst_both = stale_lane_is_reported [where lk = lane_after_two_frames
      and polyfit = column_fit and lpx = ?few and rpx = ?none and w = 640 and h = 480,
      OF both(1)]
  note inst_left = stale_lane_is_reported [where lk = lane_left_only
      and polyfit = column_fit and lpx = ?few and rpx = ?none and w = 640 and h = 480,
      OF left(1)]
  from inst_both hyp_both obtain lk2 st2 where
      "detect column_fit lane_after_two_frames 640 480 ?few ?none = (lk2, Inr st2)"
      "left_poly st2 = Some (mean_poly (left_history lane_after_two_frames))"
      "right_poly st2 = Some (mean_poly (right_history lane_after_two_frames))"
      "lane_confidence st2 = 1"
    by blast
  then have A: "map_sum id (\<lambda>st. (left_poly st, right_poly st, lane_confidence st))
        (snd (detect column_fit lane_after_two_frames 640 480 ?few ?none))
       = Inr (Some (0, 0, 110), Some (0, 0, 300), 1)"
    by (simp add: both means)
  have d1: "detect column_fit lane_left_only 640 480 ?few ?none
      = (lane_left_only, Inr (compute_metrics lane_left_only (Some (0, 0, 100)) None 640 480))"
    by (rule stale_frame_left_only)
  from inst_left hyp_left d1
  have "left_poly (compute_metrics lane_left_only (Some (0, 0, 100)) None 640 480)
          = Some (mean_poly (left_history lane_left_only))"
    and "lane_confidence (compute_metrics lane_left_only (Some (0, 0, 100)) None 640 480)
          = 1/2 + (if right_poly (compute_metrics lane_left_only (Some (0, 0, 100)) None 640 480) = None
                   then 0 else 1/2)"
    by blast+
  then have B: "map_sum id (\<lambda>st. (left_poly st, right_poly st, lane_confidence st))
        (snd (detect column_fit lane_left_only 640 480 ?few ?none))
       = Inr (Some (0, 0, 100), None, 1/2)"
    by (simp add: d1 left means compute_metrics_polys)
  from A B show ?thesis
    by (simp add: both left column_fits)
qed

end
